theory Spec2Isabelle
  imports Main
begin

section \<open>Values of the interpreter\<close>

text \<open>
  The script \<^verbatim>\<open>sweep_predict.py\<close> works on what \<^verbatim>\<open>json.loads\<close> returns: dynamically typed
  values. They are modelled by the datatype below. A dictionary is the list of its items
  in insertion order (the keys of a Python dictionary are unique; lookup takes the first
  item of a key). An integer is unbounded, as in Python. A float is kept as the text of its
  \<^verbatim>\<open>repr\<close>: the script only passes floats on (the default temperature \<^verbatim>\<open>0.0\<close>) and never
  computes with them. A text is a \<^typ>\<open>string\<close>.
\<close>

datatype json =
    JNull
  | JBool bool
  | JInt int
  | JFloat string
  | JStr string
  | JArr "json list"
  | JObj "(string \<times> json) list"

text \<open>
  Exceptions. Only the classes that the handlers of the script tell apart are kept as
  constructors; each carries the text that \<^verbatim>\<open>str(e)\<close> returns. \<^verbatim>\<open>SystemExit\<close> is no
  \<^verbatim>\<open>Exception\<close> and is a result of its own (below).
\<close>

datatype exc =
    ImportError string
  | JSONDecodeError string
  | OtherException string

fun str_exc :: "exc \<Rightarrow> string" where
  "str_exc (ImportError m) = m"
| "str_exc (JSONDecodeError m) = m"
| "str_exc (OtherException m) = m"

text \<open>
  What the interpreter itself raises on an ill-typed value: a \<^verbatim>\<open>TypeError\<close>, an
  \<^verbatim>\<open>AttributeError\<close> or a \<^verbatim>\<open>KeyError\<close>, none of them an \<^verbatim>\<open>ImportError\<close> or a
  \<^verbatim>\<open>JSONDecodeError\<close>. The operation that failed is recorded; the wording of the message
  is the interpreter's and is a parameter (\<open>fault_text\<close> below).
\<close>

datatype fault =
    NotContainer json           \<comment> \<open>\<^verbatim>\<open>k in v\<close>, \<^verbatim>\<open>v\<close> not a container\<close>
  | NoAttribute json string     \<comment> \<open>\<^verbatim>\<open>v.get\<close>, \<^verbatim>\<open>v.items\<close> on a value that is no dictionary\<close>
  | NotIterable json            \<comment> \<open>\<^verbatim>\<open>for x in v\<close>\<close>
  | BadSubscript json string    \<comment> \<open>\<^verbatim>\<open>v['k']\<close>, \<^verbatim>\<open>v\<close> not a dictionary\<close>
  | MissingKey string           \<comment> \<open>\<^verbatim>\<open>v['k']\<close>, key absent (\<^verbatim>\<open>KeyError\<close>)\<close>
  | JoinItem nat json           \<comment> \<open>\<^verbatim>\<open>sep.join(parts)\<close>, item \<open>i\<close> is no \<^verbatim>\<open>str\<close>\<close>

text \<open>The result of running a piece of the script: it returns, raises, or exits.\<close>

datatype 'a outcome =
    Return 'a
  | Raise exc
  | SystemExit int

subsection \<open>Operations on values\<close>

fun starts_with :: "string \<Rightarrow> string \<Rightarrow> bool" where
  "starts_with [] s = True"
| "starts_with (c # cs) [] = False"
| "starts_with (c # cs) (d # ds) = (c = d \<and> starts_with cs ds)"

text \<open>\<^verbatim>\<open>sub in s\<close> on two texts: \<open>sub\<close> occurs in \<open>s\<close>.\<close>

fun str_contains :: "string \<Rightarrow> string \<Rightarrow> bool" where
  "str_contains sub [] = starts_with sub []"
| "str_contains sub (c # cs) = (starts_with sub (c # cs) \<or> str_contains sub cs)"

text \<open>
  \<^verbatim>\<open>k in v\<close> for a text \<open>k\<close>: key membership on a dictionary, element membership on a
  list, substring on a text, and a \<^verbatim>\<open>TypeError\<close> on anything else.
\<close>

fun py_contains :: "json \<Rightarrow> string \<Rightarrow> fault + bool" where
  "py_contains (JObj kvs) k = Inr (k \<in> set (map fst kvs))"
| "py_contains (JArr xs) k = Inr (JStr k \<in> set xs)"
| "py_contains (JStr s) k = Inr (str_contains k s)"
| "py_contains v k = Inl (NotContainer v)"

text \<open>\<^verbatim>\<open>v.get(k, default)\<close>.\<close>

fun py_get :: "json \<Rightarrow> string \<Rightarrow> json \<Rightarrow> fault + json" where
  "py_get (JObj kvs) k dflt = Inr (case map_of kvs k of Some x \<Rightarrow> x | None \<Rightarrow> dflt)"
| "py_get v k dflt = Inl (NoAttribute v ''get'')"

text \<open>\<^verbatim>\<open>v[k]\<close> for a text \<open>k\<close>.\<close>

fun py_index :: "json \<Rightarrow> string \<Rightarrow> fault + json" where
  "py_index (JObj kvs) k = (case map_of kvs k of Some x \<Rightarrow> Inr x | None \<Rightarrow> Inl (MissingKey k))"
| "py_index v k = Inl (BadSubscript v k)"

text \<open>\<^verbatim>\<open>v.items()\<close>.\<close>

fun py_items :: "json \<Rightarrow> fault + (string \<times> json) list" where
  "py_items (JObj kvs) = Inr kvs"
| "py_items v = Inl (NoAttribute v ''items'')"

text \<open>
  The elements that \<^verbatim>\<open>for x in v\<close> runs through: the elements of a list, the keys of a
  dictionary, the characters of a text.
\<close>

fun py_iter :: "json \<Rightarrow> fault + json list" where
  "py_iter (JArr xs) = Inr xs"
| "py_iter (JObj kvs) = Inr (map (\<lambda>kv. JStr (fst kv)) kvs)"
| "py_iter (JStr s) = Inr (map (\<lambda>c. JStr [c]) s)"
| "py_iter v = Inl (NotIterable v)"

text \<open>\<^verbatim>\<open>sep.join(parts)\<close> on texts.\<close>

fun str_join :: "string \<Rightarrow> string list \<Rightarrow> string" where
  "str_join sep [] = []"
| "str_join sep [x] = x"
| "str_join sep (x # y # ys) = x @ sep @ str_join sep (y # ys)"

text \<open>
  \<^verbatim>\<open>sep.join(parts)\<close> on values: a \<^verbatim>\<open>TypeError\<close> naming the first item that is no text.
  \<open>as_strs i parts\<close> checks the items from index \<open>i\<close> on.
\<close>

fun as_strs :: "nat \<Rightarrow> json list \<Rightarrow> fault + string list" where
  "as_strs i [] = Inr []"
| "as_strs i (JStr s # vs) =
     (case as_strs (Suc i) vs of Inl f \<Rightarrow> Inl f | Inr ss \<Rightarrow> Inr (s # ss))"
| "as_strs i (v # vs) = Inl (JoinItem i v)"

definition py_join :: "string \<Rightarrow> json list \<Rightarrow> fault + string" where
  "py_join sep parts = (case as_strs 0 parts of Inl f \<Rightarrow> Inl f | Inr ss \<Rightarrow> Inr (str_join sep ss))"

text \<open>
  \<^verbatim>\<open>str.isspace\<close> on one character, for the characters below 256, and \<^verbatim>\<open>s.strip()\<close>.
\<close>

definition py_isspace :: "char \<Rightarrow> bool" where
  "py_isspace c =
     (of_char c \<in> {9, 10, 11, 12, 13, 28, 29, 30, 31, 32, 133, 160 :: nat})"

definition strip :: "string \<Rightarrow> string" where
  "strip s = rev (dropWhile py_isspace (rev (dropWhile py_isspace s)))"

section \<open>The environment of one invocation\<close>

text \<open>
  Everything the script calls outside itself is a field of the environment: standard
  input, the JSON parser, the two optional imports, the file system, the model registry
  and the inference library. A call that can raise returns the exception as a value. A
  path is the text that \<^verbatim>\<open>str(path)\<close> gives.

  \<^item> \<open>stdin_read\<close>: \<^verbatim>\<open>sys.stdin.read()\<close>.
  \<^item> \<open>json_loads\<close>: \<^verbatim>\<open>json.loads\<close>.
  \<^item> \<open>import_llama_cpp\<close>, \<open>import_huggingface_hub\<close>: the exception the import raises, if any.
  \<^item> \<open>home_error\<close>, \<open>home\<close>: \<^verbatim>\<open>Path.home()\<close>, evaluated once when line 19 defines
    \<^verbatim>\<open>MODEL_DIR\<close>: the exception it raises, if any (a \<^verbatim>\<open>RuntimeError\<close> when no home
    directory can be determined), and the directory it returns otherwise.
  \<^item> \<open>path_exists\<close>: \<^verbatim>\<open>Path.exists\<close>; it returns, or raises the \<^verbatim>\<open>OSError\<close> that it does
    not take for an absent file.
  \<^item> \<open>mkdir\<close>: \<^verbatim>\<open>MODEL_DIR.mkdir(parents=True, exist_ok=True)\<close>, the exception it raises, if any.
  \<^item> \<open>hf_hub_download\<close>: the registry download, of repository, file name and local
    directory; it returns the path of the downloaded file.
  \<^item> \<open>llama_load\<close>: the constructor \<^verbatim>\<open>Llama(model_path=...)\<close>, the exception it raises, if any.
  \<^item> \<open>llama_call\<close>: the generation on the loaded model, of model path, prompt,
    \<^verbatim>\<open>max_tokens\<close> and \<^verbatim>\<open>temperature\<close>, together with the two clock readings around it and
    the reading of its output. It returns the generated text, the latency in milliseconds
    and the number of generated tokens.
  \<^item> \<open>py_str\<close>: what an f-string puts for a value that is no text.
  \<^item> \<open>fault_text\<close>: \<^verbatim>\<open>str(e)\<close> for an exception that the interpreter raises.
\<close>

record env =
  stdin_read :: "exc + string"
  json_loads :: "string \<Rightarrow> exc + json"
  import_llama_cpp :: "exc option"
  home_error :: "exc option"
  home :: string
  path_exists :: "string \<Rightarrow> exc + bool"
  import_huggingface_hub :: "exc option"
  mkdir :: "string \<Rightarrow> exc option"
  hf_hub_download :: "string \<Rightarrow> string \<Rightarrow> string \<Rightarrow> exc + string"
  llama_load :: "string \<Rightarrow> exc option"
  llama_call :: "string \<Rightarrow> string \<Rightarrow> json \<Rightarrow> json \<Rightarrow> exc + (json \<times> int \<times> json)"
  py_str :: "json \<Rightarrow> string"
  fault_text :: "fault \<Rightarrow> string"

text \<open>
  What an invocation does to the outside: the lines printed on standard output and on
  standard error (each \<^verbatim>\<open>print(json.dumps(v))\<close> is one line, kept as the value \<open>v\<close>), and
  the calls that write to the cache directory or go to the network.
\<close>

datatype call =
    Mkdir string
  | HfHubDownload string string string

record world =
  stdout :: "json list"
  stderr :: "json list"
  calls :: "call list"

definition print :: "json \<Rightarrow> world \<Rightarrow> world" where
  "print v w = w\<lparr>stdout := stdout w @ [v]\<rparr>"

definition print_stderr :: "json \<Rightarrow> world \<Rightarrow> world" where
  "print_stderr v w = w\<lparr>stderr := stderr w @ [v]\<rparr>"

definition call :: "call \<Rightarrow> world \<Rightarrow> world" where
  "call c w = w\<lparr>calls := calls w @ [c]\<rparr>"

definition raise_fault :: "env \<Rightarrow> fault \<Rightarrow> exc" where
  "raise_fault e f = OtherException (fault_text e f)"

section \<open>Model configuration and \<^verbatim>\<open>get_model_path\<close>\<close>

definition MODEL_REPO :: string where
  "MODEL_REPO = ''sweepai/sweep-next-edit-1.5B''"

definition MODEL_FILENAME :: string where
  "MODEL_FILENAME = ''sweep-next-edit-1.5b.q8_0.v2.gguf''"

text \<open>
  \<^verbatim>\<open>p / c\<close> on the text of a path and a name: the separator is put between them unless
  \<open>p\<close> is a root and ends in one.
\<close>

definition path_div :: "string \<Rightarrow> string \<Rightarrow> string" where
  "path_div p c = (if p \<noteq> [] \<and> last p = CHR ''/'' then p @ c else p @ ''/'' @ c)"

definition MODEL_DIR :: "env \<Rightarrow> string" where
  "MODEL_DIR e = path_div (path_div (path_div (home e) ''.stackmemory'') ''models'') ''sweep''"

text \<open>
  The two handlers of \<^verbatim>\<open>get_model_path\<close>, in the order of the source: an \<^verbatim>\<open>ImportError\<close>
  first, any other exception second. Both print to standard output and exit with 1.
\<close>

fun download_handler :: "exc \<Rightarrow> world \<Rightarrow> string outcome \<times> world" where
  "download_handler (ImportError m) w =
     (SystemExit 1,
      print (JObj [(''error'', JStr ''huggingface_hub not installed''),
                   (''message'', JStr ''Run: pip install huggingface_hub llama-cpp-python'')]) w)"
| "download_handler x w =
     (SystemExit 1,
      print (JObj [(''error'', JStr ''download_failed''), (''message'', JStr (str_exc x))]) w)"

text \<open>
  The \<^verbatim>\<open>try\<close> block of \<^verbatim>\<open>get_model_path\<close> (lines 33 to 46): the import, the creation of
  the directory, the download and the progress line on standard error.
\<close>

definition download :: "env \<Rightarrow> world \<Rightarrow> (exc + string) \<times> world" where
  "download e w =
     (case import_huggingface_hub e of
        Some x \<Rightarrow> (Inl x, w)
      | None \<Rightarrow>
          let w1 = call (Mkdir (MODEL_DIR e)) w in
          (case mkdir e (MODEL_DIR e) of
             Some x \<Rightarrow> (Inl x, w1)
           | None \<Rightarrow>
               let w2 = call (HfHubDownload MODEL_REPO MODEL_FILENAME (MODEL_DIR e)) w1 in
               (case hf_hub_download e MODEL_REPO MODEL_FILENAME (MODEL_DIR e) of
                  Inl x \<Rightarrow> (Inl x, w2)
                | Inr downloaded_path \<Rightarrow>
                    (Inr downloaded_path,
                     print_stderr (JObj [(''status'', JStr ''downloaded''),
                                         (''path'', JStr downloaded_path)]) w2))))"

definition get_model_path :: "env \<Rightarrow> world \<Rightarrow> string outcome \<times> world" where
  "get_model_path e w =
     (let model_path = path_div (MODEL_DIR e) MODEL_FILENAME in
      case path_exists e model_path of
        Inl x \<Rightarrow> (Raise x, w)
      | Inr True \<Rightarrow> (Return model_path, w)
      | Inr False \<Rightarrow>
          (case download e
                  (print_stderr (JObj [(''status'', JStr ''downloading''),
                                       (''message'', JStr ''Downloading Sweep 1.5B model...'')]) w) of
             (Inl x, w1) \<Rightarrow> download_handler x w1
           | (Inr downloaded_path, w1) \<Rightarrow> (Return downloaded_path, w1)))"

section \<open>\<^verbatim>\<open>build_prompt\<close>\<close>

definition file_sep :: string where
  "file_sep = ''<|file_sep|>''"

definition newline :: string where
  "newline = [CHR 0x0A]"

text \<open>What an f-string puts for \<^verbatim>\<open>{v}\<close>: a text as it is, anything else through \<^verbatim>\<open>str\<close>.\<close>

fun fmt :: "env \<Rightarrow> json \<Rightarrow> string" where
  "fmt e (JStr s) = s"
| "fmt e v = py_str e v"

text \<open>The first loop, over the items of \<^verbatim>\<open>context_files\<close>; \<open>parts\<close> is \<^verbatim>\<open>prompt_parts\<close>.\<close>

fun add_context_files :: "json list \<Rightarrow> (string \<times> json) list \<Rightarrow> json list" where
  "add_context_files parts [] = parts"
| "add_context_files parts ((path, content) # rest) =
     add_context_files (parts @ [JStr (file_sep @ path), content]) rest"

text \<open>The second loop, over \<^verbatim>\<open>recent_diffs\<close>.\<close>

fun add_recent_diffs :: "env \<Rightarrow> json list \<Rightarrow> json list \<Rightarrow> fault + json list" where
  "add_recent_diffs e parts [] = Inr parts"
| "add_recent_diffs e parts (diff # rest) =
     (case py_index diff ''file_path'' of
        Inl f \<Rightarrow> Inl f
      | Inr p \<Rightarrow>
          (case py_index diff ''original'' of
             Inl f \<Rightarrow> Inl f
           | Inr orig \<Rightarrow>
               (case py_index diff ''updated'' of
                  Inl f \<Rightarrow> Inl f
                | Inr upd \<Rightarrow>
                    add_recent_diffs e
                      (parts @ [JStr (file_sep @ fmt e p @ ''.diff''),
                                JStr ''original:'', orig, JStr ''updated:'', upd])
                      rest)))"

definition build_prompt :: "env \<Rightarrow> json \<Rightarrow> json \<Rightarrow> json \<Rightarrow> json \<Rightarrow> json \<Rightarrow> fault + string" where
  "build_prompt e context_files recent_diffs file_path original_content current_content =
     (case py_items context_files of
        Inl f \<Rightarrow> Inl f
      | Inr items \<Rightarrow>
          (case py_iter recent_diffs of
             Inl f \<Rightarrow> Inl f
           | Inr diffs \<Rightarrow>
               (case add_recent_diffs e (add_context_files [] items) diffs of
                  Inl f \<Rightarrow> Inl f
                | Inr parts \<Rightarrow>
                    py_join newline
                      (parts @ [JStr (file_sep @ ''original/'' @ fmt e file_path),
                                original_content,
                                JStr (file_sep @ ''current/'' @ fmt e file_path),
                                current_content,
                                JStr (file_sep @ ''updated/'' @ fmt e file_path)]))))"

section \<open>\<^verbatim>\<open>predict\<close>\<close>

text \<open>
  The call of \<^verbatim>\<open>build_prompt\<close> in \<^verbatim>\<open>predict\<close> (lines 114 to 120), its arguments evaluated
  from left to right. The default of \<^verbatim>\<open>original_content\<close>, \<^verbatim>\<open>input_data["current_content"]\<close>,
  is evaluated before the lookup that uses it.
\<close>

definition predict_prompt :: "env \<Rightarrow> json \<Rightarrow> fault + string" where
  "predict_prompt e input_data =
     (case py_get input_data ''context_files'' (JObj []) of
        Inl f \<Rightarrow> Inl f
      | Inr context_files \<Rightarrow>
     (case py_get input_data ''recent_diffs'' (JArr []) of
        Inl f \<Rightarrow> Inl f
      | Inr recent_diffs \<Rightarrow>
     (case py_index input_data ''file_path'' of
        Inl f \<Rightarrow> Inl f
      | Inr file_path \<Rightarrow>
     (case py_index input_data ''current_content'' of
        Inl f \<Rightarrow> Inl f
      | Inr dflt \<Rightarrow>
     (case py_get input_data ''original_content'' dflt of
        Inl f \<Rightarrow> Inl f
      | Inr original_content \<Rightarrow>
     (case py_index input_data ''current_content'' of
        Inl f \<Rightarrow> Inl f
      | Inr current_content \<Rightarrow>
          build_prompt e context_files recent_diffs file_path
            original_content current_content))))))"

definition prediction_failed :: "string \<Rightarrow> json" where
  "prediction_failed m = JObj [(''error'', JStr ''prediction_failed''), (''message'', JStr m)]"

text \<open>
  The \<^verbatim>\<open>try\<close> block of \<^verbatim>\<open>predict\<close> (lines 123 to 157): whatever is raised inside is
  returned as a \<^verbatim>\<open>prediction_failed\<close> dictionary.
\<close>

definition generate :: "env \<Rightarrow> json \<Rightarrow> string \<Rightarrow> string \<Rightarrow> json" where
  "generate e input_data model_path prompt =
     (case llama_load e model_path of
        Some x \<Rightarrow> prediction_failed (str_exc x)
      | None \<Rightarrow>
     (case py_get input_data ''max_tokens'' (JInt 512) of
        Inl f \<Rightarrow> prediction_failed (str_exc (raise_fault e f))
      | Inr max_tokens \<Rightarrow>
     (case py_get input_data ''temperature'' (JFloat ''0.0'') of
        Inl f \<Rightarrow> prediction_failed (str_exc (raise_fault e f))
      | Inr temperature \<Rightarrow>
     (case llama_call e model_path prompt max_tokens temperature of
        Inl x \<Rightarrow> prediction_failed (str_exc x)
      | Inr (predicted_content, latency_ms, completion_tokens) \<Rightarrow>
     (case py_index input_data ''file_path'' of
        Inl f \<Rightarrow> prediction_failed (str_exc (raise_fault e f))
      | Inr file_path \<Rightarrow>
          JObj [(''success'', JBool True),
                (''predicted_content'', predicted_content),
                (''file_path'', file_path),
                (''latency_ms'', JInt latency_ms),
                (''tokens_generated'', completion_tokens)])))))"

definition predict :: "env \<Rightarrow> json \<Rightarrow> world \<Rightarrow> json outcome \<times> world" where
  "predict e input_data w =
     (case import_llama_cpp e of
        Some (ImportError m) \<Rightarrow>
          (Return (JObj [(''error'', JStr ''llama_cpp not installed''),
                         (''message'', JStr ''Run: pip install llama-cpp-python'')]), w)
      | Some x \<Rightarrow> (Raise x, w)
      | None \<Rightarrow>
          (case get_model_path e w of
             (SystemExit n, w1) \<Rightarrow> (SystemExit n, w1)
           | (Raise x, w1) \<Rightarrow> (Raise x, w1)
           | (Return model_path, w1) \<Rightarrow>
               (case predict_prompt e input_data of
                  Inl f \<Rightarrow> (Raise (raise_fault e f), w1)
                | Inr prompt \<Rightarrow> (Return (generate e input_data model_path prompt), w1))))"

section \<open>\<^verbatim>\<open>main\<close>\<close>

text \<open>The \<^verbatim>\<open>try\<close> block of \<^verbatim>\<open>main\<close> (lines 163 to 181).\<close>

definition main_body :: "env \<Rightarrow> world \<Rightarrow> unit outcome \<times> world" where
  "main_body e w =
     (case stdin_read e of
        Inl x \<Rightarrow> (Raise x, w)
      | Inr input_text \<Rightarrow>
          if strip input_text = [] then
            (SystemExit 1,
             print (JObj [(''error'', JStr ''no_input''), (''message'', JStr ''No input provided'')]) w)
          else
            (case json_loads e input_text of
               Inl x \<Rightarrow> (Raise x, w)
             | Inr input_data \<Rightarrow>
                 (case py_contains input_data ''file_path'' of
                    Inl f \<Rightarrow> (Raise (raise_fault e f), w)
                  | Inr False \<Rightarrow>
                      (SystemExit 1,
                       print (JObj [(''error'', JStr ''missing_field''),
                                    (''message'', JStr ''file_path is required'')]) w)
                  | Inr True \<Rightarrow>
                      (case py_contains input_data ''current_content'' of
                         Inl f \<Rightarrow> (Raise (raise_fault e f), w)
                       | Inr False \<Rightarrow>
                           (SystemExit 1,
                            print (JObj [(''error'', JStr ''missing_field''),
                                         (''message'', JStr ''current_content is required'')]) w)
                       | Inr True \<Rightarrow>
                           (case predict e input_data w of
                              (SystemExit n, w1) \<Rightarrow> (SystemExit n, w1)
                            | (Raise x, w1) \<Rightarrow> (Raise x, w1)
                            | (Return result, w1) \<Rightarrow> (Return (), print result w1))))))"

text \<open>
  \<^verbatim>\<open>main\<close>: the block with its two handlers (lines 183 to 188). A \<^verbatim>\<open>SystemExit\<close> passes
  through both, since neither class catches it.
\<close>

definition main :: "env \<Rightarrow> world \<Rightarrow> unit outcome \<times> world" where
  "main e w =
     (case main_body e w of
        (Raise (JSONDecodeError m), w1) \<Rightarrow>
          (SystemExit 1,
           print (JObj [(''error'', JStr ''invalid_json''), (''message'', JStr m)]) w1)
      | (Raise x, w1) \<Rightarrow>
          (SystemExit 1,
           print (JObj [(''error'', JStr ''unexpected''), (''message'', JStr (str_exc x))]) w1)
      | r \<Rightarrow> r)"

text \<open>
  The call \<^verbatim>\<open>main()\<close> of line 192, from nothing printed and nothing called. The exit code
  of the process is 0 when \<^verbatim>\<open>main\<close> returns, the code of the \<^verbatim>\<open>SystemExit\<close> when it
  exits, and 1 for an exception that reaches the top level.
\<close>

definition start :: world where
  "start = \<lparr>stdout = [], stderr = [], calls = []\<rparr>"

definition exit_code :: "unit outcome \<Rightarrow> int" where
  "exit_code r = (case r of Return u \<Rightarrow> 0 | SystemExit n \<Rightarrow> n | Raise x \<Rightarrow> 1)"

definition run :: "env \<Rightarrow> int \<times> world" where
  "run e = (case main e start of (r, w) \<Rightarrow> (exit_code r, w))"

text \<open>
  One invocation of the script, from its first line. The module level comes before
  \<^verbatim>\<open>main()\<close> and is inside no \<^verbatim>\<open>try\<close>: when \<^verbatim>\<open>Path.home()\<close> raises at line 19 the exception
  is uncaught, the interpreter writes its traceback on standard error, nothing is written
  on standard output and the exit code is 1. Otherwise the invocation is that of \<^verbatim>\<open>main()\<close>.
\<close>

datatype ending =
    Uncaught exc
  | Ended int world

definition script :: "env \<Rightarrow> ending" where
  "script e =
     (case home_error e of
        Some x \<Rightarrow> Uncaught x
      | None \<Rightarrow> (case run e of (code, w) \<Rightarrow> Ended code w))"

fun stdout_of :: "ending \<Rightarrow> json list" where
  "stdout_of (Uncaught x) = []"
| "stdout_of (Ended code w) = stdout w"

fun exit_status :: "ending \<Rightarrow> int" where
  "exit_status (Uncaught x) = 1"
| "exit_status (Ended code w) = code"

section \<open>The request and the prompt format of the specification\<close>

text \<open>
  The specification speaks of a typed request (its section 3) where the script has a
  dictionary. The record below is that request; \<open>represents\<close> says when a value that the
  script receives is such a request: the two required texts are there, the optional
  fields are absent or of the stated type. Nothing is asked of the order of the keys or
  of keys that the specification does not name.
\<close>

record diff =
  diff_file_path :: string
  original :: string
  updated :: string

record request =
  file_path :: string
  current_content :: string
  original_content :: "string option"
  context_files :: "(string \<times> string) list"
  recent_diffs :: "diff list"
  max_tokens :: "int option"
  temperature :: "string option"

definition context_json :: "(string \<times> string) list \<Rightarrow> json" where
  "context_json cf = JObj (map (\<lambda>(p, c). (p, JStr c)) cf)"

fun diff_repr :: "json \<Rightarrow> diff \<Rightarrow> bool" where
  "diff_repr (JObj kvs) d =
     (map_of kvs ''file_path'' = Some (JStr (diff_file_path d)) \<and>
      map_of kvs ''original'' = Some (JStr (original d)) \<and>
      map_of kvs ''updated'' = Some (JStr (updated d)))"
| "diff_repr v d = False"

fun diffs_repr :: "json option \<Rightarrow> diff list \<Rightarrow> bool" where
  "diffs_repr None ds = (ds = [])"
| "diffs_repr (Some (JArr vs)) ds = list_all2 diff_repr vs ds"
| "diffs_repr (Some v) ds = False"

fun represents :: "json \<Rightarrow> request \<Rightarrow> bool" where
  "represents (JObj kvs) r =
     (map_of kvs ''file_path'' = Some (JStr (file_path r)) \<and>
      map_of kvs ''current_content'' = Some (JStr (current_content r)) \<and>
      map_of kvs ''original_content'' = map_option JStr (original_content r) \<and>
      (case map_of kvs ''context_files'' of
         None \<Rightarrow> context_files r = []
       | Some v \<Rightarrow> v = context_json (context_files r)) \<and>
      diffs_repr (map_of kvs ''recent_diffs'') (recent_diffs r) \<and>
      map_of kvs ''max_tokens'' = map_option JInt (max_tokens r) \<and>
      map_of kvs ''temperature'' = map_option JFloat (temperature r))"
| "represents v r = False"

text \<open>
  The prompt as section 4.2 of the specification words it: the sections in their fixed
  order, each a list of parts, all parts joined by newlines.
\<close>

definition context_section :: "string \<times> string \<Rightarrow> string list" where
  "context_section pc = [file_sep @ fst pc, snd pc]"

definition diff_section :: "diff \<Rightarrow> string list" where
  "diff_section d =
     [file_sep @ diff_file_path d @ ''.diff'', ''original:'', original d, ''updated:'', updated d]"

definition spec_prompt ::
  "(string \<times> string) list \<Rightarrow> diff list \<Rightarrow> string \<Rightarrow> string \<Rightarrow> string \<Rightarrow> string" where
  "spec_prompt cf ds fp oc cc =
     str_join newline
       (concat (map context_section cf) @
        concat (map diff_section ds) @
        [file_sep @ ''original/'' @ fp, oc] @
        [file_sep @ ''current/'' @ fp, cc] @
        [file_sep @ ''updated/'' @ fp])"

text \<open>The number of places of a text at which the delimiter token starts.\<close>

fun occurrences :: "string \<Rightarrow> string \<Rightarrow> nat" where
  "occurrences tok [] = 0"
| "occurrences tok (c # cs) = (if starts_with tok (c # cs) then 1 else 0) + occurrences tok cs"

section \<open>The lines of the protocol\<close>

text \<open>
  The three shapes of a printed line: an error envelope (\<^verbatim>\<open>error\<close> and \<^verbatim>\<open>message\<close>, both
  texts), a prediction result (the five keys of line 145 to 151, \<^verbatim>\<open>success\<close> true), and a
  progress message of the download.
\<close>

fun is_error_envelope :: "json \<Rightarrow> bool" where
  "is_error_envelope (JObj [(k1, JStr t), (k2, JStr m)]) = (k1 = ''error'' \<and> k2 = ''message'')"
| "is_error_envelope v = False"

fun is_prediction_result :: "json \<Rightarrow> bool" where
  "is_prediction_result (JObj [(k1, s), (k2, p), (k3, f), (k4, JInt l), (k5, n)]) =
     (k1 = ''success'' \<and> s = JBool True \<and> k2 = ''predicted_content'' \<and> k3 = ''file_path'' \<and>
      k4 = ''latency_ms'' \<and> k5 = ''tokens_generated'')"
| "is_prediction_result v = False"

fun is_progress :: "json \<Rightarrow> bool" where
  "is_progress (JObj ((k1, JStr s) # kvs)) =
     (k1 = ''status'' \<and> (s = ''downloading'' \<or> s = ''downloaded''))"
| "is_progress v = False"

text \<open>
  The value that validation looks at: standard input was read, is not blank, and was parsed.
\<close>

definition parsed_input :: "env \<Rightarrow> json option" where
  "parsed_input e =
     (case stdin_read e of
        Inl x \<Rightarrow> None
      | Inr input_text \<Rightarrow>
          if strip input_text = [] then None
          else (case json_loads e input_text of Inl x \<Rightarrow> None | Inr input_data \<Rightarrow> Some input_data))"

text \<open>
  Validation has passed on a value: both membership tests of lines 172 and 175 are true,
  so \<^verbatim>\<open>predict\<close> is called.
\<close>

definition reaches_predict :: "env \<Rightarrow> json \<Rightarrow> bool" where
  "reaches_predict e v =
     (parsed_input e = Some v \<and> py_contains v ''file_path'' = Inr True \<and>
      py_contains v ''current_content'' = Inr True)"

text \<open>The kind tag of a printed line, if it has one.\<close>

definition error_tag :: "json \<Rightarrow> string option" where
  "error_tag v = (case py_index v ''error'' of Inr (JStr t) \<Rightarrow> Some t | _ \<Rightarrow> None)"

definition is_line :: "json \<Rightarrow> bool" where
  "is_line v = (is_error_envelope v \<or> is_prediction_result v)"

definition is_reply :: "json \<Rightarrow> bool" where
  "is_reply v = (is_line v \<and> error_tag v \<noteq> Some ''missing_field'')"

text \<open>From \<open>w\<close> to \<open>w'\<close>, standard error has only grown, and only by progress messages.\<close>

definition progress_only :: "world \<Rightarrow> world \<Rightarrow> bool" where
  "progress_only w w' = (\<exists>ps. stderr w' = stderr w @ ps \<and> list_all is_progress ps)"

section \<open>Sample invocations\<close>

definition request_text :: string where
  \<open>request_text = ''{"file_path": "a.py", "current_content": "x = 1"}''\<close>

definition request_value :: json where
  "request_value = JObj [(''file_path'', JStr ''a.py''), (''current_content'', JStr ''x = 1'')]"

text \<open>An invocation in which the model is in the cache and every call succeeds.\<close>

definition env0 :: env where
  "env0 =
     \<lparr>stdin_read = Inr request_text,
      json_loads = (\<lambda>s. if s = request_text then Inr request_value
                         else Inl (JSONDecodeError ''Expecting value'')),
      import_llama_cpp = None,
      home_error = None,
      home = ''/home/u'',
      path_exists = (\<lambda>p. Inr True),
      import_huggingface_hub = None,
      mkdir = (\<lambda>d. None),
      hf_hub_download = (\<lambda>r f d. Inr (path_div d f)),
      llama_load = (\<lambda>p. None),
      llama_call = (\<lambda>p prompt n t. Inr (JStr ''x = 2'', 7, JInt 3)),
      py_str = (\<lambda>v. ''None''),
      fault_text = (\<lambda>f. ''TypeError'')\<rparr>"

text \<open>The same with an empty cache and a registry that cannot be reached.\<close>

definition env_download_fails :: env where
  "env_download_fails =
     env0\<lparr>path_exists := (\<lambda>p. Inr False),
          hf_hub_download := (\<lambda>r f d. Inl (OtherException ''connection refused''))\<rparr>"

text \<open>
  An invocation in which no home directory can be determined (\<^verbatim>\<open>HOME\<close> is not set and
  the user has no entry in the password database).
\<close>

definition env_no_home :: env where
  "env_no_home = env0\<lparr>home_error := Some (OtherException ''Could not determine home directory.'')\<rparr>"

text \<open>
  Input that is no JSON and on which the parser raises no \<^verbatim>\<open>JSONDecodeError\<close>: a hundred
  thousand opening brackets, on which \<^verbatim>\<open>json.loads\<close> raises a \<^verbatim>\<open>RecursionError\<close>.
\<close>

definition deep_nesting :: string where
  "deep_nesting = replicate 100000 (CHR ''['')"

definition env_deep_nesting :: env where
  "env_deep_nesting =
     env0\<lparr>stdin_read := Inr deep_nesting,
          json_loads := (\<lambda>s. Inl (OtherException
            ''maximum recursion depth exceeded while decoding a JSON array from a unicode string''))\<rparr>"

text \<open>Blank input, and input that the parser rejects.\<close>

definition env_blank :: env where
  "env_blank = env0\<lparr>stdin_read := Inr ('' '' @ newline)\<rparr>"

definition env_bad_json :: env where
  "env_bad_json = env0\<lparr>stdin_read := Inr ''{''\<rparr>"

text \<open>Objects that lack a required key, and one whose required keys hold \<^verbatim>\<open>null\<close>.\<close>

definition env_no_file_path :: env where
  "env_no_file_path =
     env0\<lparr>json_loads := (\<lambda>s. Inr (JObj [(''current_content'', JStr ''x = 1'')]))\<rparr>"

definition env_no_current_content :: env where
  "env_no_current_content =
     env0\<lparr>json_loads := (\<lambda>s. Inr (JObj [(''file_path'', JStr ''a.py'')]))\<rparr>"

definition null_fields :: "(string \<times> json) list" where
  "null_fields = [(''file_path'', JNull), (''current_content'', JNull)]"

definition env_null_fields :: env where
  "env_null_fields = env0\<lparr>json_loads := (\<lambda>s. Inr (JObj null_fields))\<rparr>"

text \<open>The failures of the prediction stage.\<close>

definition env_no_llama :: env where
  "env_no_llama = env0\<lparr>import_llama_cpp := Some (ImportError ''No module named llama_cpp'')\<rparr>"

definition env_load_fails :: env where
  "env_load_fails = env0\<lparr>llama_load := (\<lambda>p. Some (OtherException ''failed to load model''))\<rparr>"

definition env_call_fails :: env where
  "env_call_fails = env0\<lparr>llama_call := (\<lambda>p prompt n t. Inl (OtherException ''out of memory''))\<rparr>"

definition env_no_hub :: env where
  "env_no_hub =
     env0\<lparr>path_exists := (\<lambda>p. Inr False),
          import_huggingface_hub := Some (ImportError ''No module named huggingface_hub'')\<rparr>"

text \<open>An empty cache and a download that succeeds.\<close>

definition env_download_ok :: env where
  "env_download_ok = env0\<lparr>path_exists := (\<lambda>p. Inr False)\<rparr>"

text \<open>A typed request, a value that represents it, and a second pair with the same prompt
  fields, other keys and another order of the keys.\<close>

definition sample_diff :: diff where
  "sample_diff = \<lparr>diff_file_path = ''a.py'', original = ''x = 0'', updated = ''x = 1''\<rparr>"

definition sample_diff_value :: json where
  "sample_diff_value =
     JObj [(''updated'', JStr ''x = 1''), (''file_path'', JStr ''a.py''), (''original'', JStr ''x = 0'')]"

definition sample_request :: request where
  "sample_request =
     \<lparr>file_path = ''a.py'', current_content = ''x = 1'', original_content = None,
      context_files = [(''b.py'', ''y = 2'')], recent_diffs = [sample_diff],
      max_tokens = None, temperature = None\<rparr>"

definition sample_value :: json where
  "sample_value =
     JObj [(''file_path'', JStr ''a.py''), (''current_content'', JStr ''x = 1''),
           (''context_files'', JObj [(''b.py'', JStr ''y = 2'')]),
           (''recent_diffs'', JArr [sample_diff_value])]"

definition sample_request2 :: request where
  "sample_request2 = sample_request\<lparr>max_tokens := Some 64, temperature := Some ''0.7''\<rparr>"

definition sample_value2 :: json where
  "sample_value2 =
     JObj [(''temperature'', JFloat ''0.7''), (''max_tokens'', JInt 64),
           (''recent_diffs'',
              JArr [JObj [(''file_path'', JStr ''a.py''), (''original'', JStr ''x = 0''),
                          (''updated'', JStr ''x = 1''), (''note'', JNull)]]),
           (''context_files'', JObj [(''b.py'', JStr ''y = 2'')]),
           (''current_content'', JStr ''x = 1''), (''file_path'', JStr ''a.py''),
           (''trace_id'', JInt 7)]"

definition sample_prompt :: string where
  "sample_prompt =
     str_join newline
       [''<|file_sep|>b.py'', ''y = 2'',
        ''<|file_sep|>a.py.diff'', ''original:'', ''x = 0'', ''updated:'', ''x = 1'',
        ''<|file_sep|>original/a.py'', ''x = 1'',
        ''<|file_sep|>current/a.py'', ''x = 1'',
        ''<|file_sep|>updated/a.py'']"

section \<open>Properties\<close>

subsection \<open>Texts\<close>

lemma strip_Nil_iff: "strip s = [] \<longleftrightarrow> (\<forall>c\<in>set s. py_isspace c)"
proof
  assume "strip s = []"
  then have "dropWhile py_isspace (rev (dropWhile py_isspace s)) = []"
    by (simp add: strip_def)
  then have all: "\<forall>c\<in>set (dropWhile py_isspace s). py_isspace c"
    by simp
  have "dropWhile py_isspace s = []"
  proof (rule ccontr)
    assume ne: "dropWhile py_isspace s \<noteq> []"
    then have "\<not> py_isspace (hd (dropWhile py_isspace s))"
      by (rule hd_dropWhile)
    with all ne show False by simp
  qed
  then show "\<forall>c\<in>set s. py_isspace c"
    by simp
next
  assume "\<forall>c\<in>set s. py_isspace c"
  then show "strip s = []"
    by (auto simp: strip_def dest: set_dropWhileD)
qed

lemma starts_with_cut:
  "starts_with tok (x @ c # rest) \<Longrightarrow> c \<notin> set tok \<Longrightarrow> starts_with tok x"
  by (induction tok x rule: starts_with.induct) auto

lemma occurrences_skip:
  assumes "c \<notin> set tok" "tok \<noteq> []" "occurrences tok x = 0"
  shows "occurrences tok (x @ c # rest) = occurrences tok rest"
  using assms(3)
proof (induction x)
  case Nil
  from assms(1,2) have "\<not> starts_with tok (c # rest)"
    by (cases tok) auto
  then show ?case by simp
next
  case (Cons a x)
  from Cons.prems have no: "\<not> starts_with tok (a # x)" and rest: "occurrences tok x = 0"
    by (auto split: if_splits)
  from no assms(1) have "\<not> starts_with tok ((a # x) @ c # rest)"
    using starts_with_cut by blast
  with Cons.IH [OF rest] show ?case by simp
qed

lemma occurrences_header:
  "occurrences file_sep (file_sep @ s) = Suc (occurrences file_sep s)"
  by (simp add: file_sep_def)

lemma occurrences_line:
  assumes "occurrences file_sep x = 0"
  shows "occurrences file_sep (x @ newline @ rest) = occurrences file_sep rest"
proof -
  have "CHR 0x0A \<notin> set file_sep" and "file_sep \<noteq> []"
    by (simp_all add: file_sep_def)
  from occurrences_skip [OF this assms] show ?thesis
    by (simp add: newline_def)
qed

lemma occurrences_name:
  "occurrences file_sep (''original/'' @ s) = occurrences file_sep s"
  "occurrences file_sep (''current/'' @ s) = occurrences file_sep s"
  "occurrences file_sep (''updated/'' @ s) = occurrences file_sep s"
  by (simp_all add: file_sep_def)

lemma occurrences_three:
  assumes "occurrences file_sep fp = 0" "occurrences file_sep oc = 0" "occurrences file_sep cc = 0"
  shows "occurrences file_sep
           (file_sep @ ''original/'' @ fp @ newline @ oc @ newline @
            file_sep @ ''current/'' @ fp @ newline @ cc @ newline @
            file_sep @ ''updated/'' @ fp) = 3"
  by (simp only: occurrences_header occurrences_name occurrences_line assms numeral_3_eq_3)

subsection \<open>The prompt of a typed request\<close>

lemma add_context_files_typed:
  "add_context_files parts (map (\<lambda>(p, c). (p, JStr c)) cf) =
     parts @ map JStr (concat (map context_section cf))"
  by (induction cf arbitrary: parts) (auto simp: context_section_def)

lemma add_recent_diffs_typed:
  "list_all2 diff_repr vs ds \<Longrightarrow>
   add_recent_diffs e parts vs = Inr (parts @ map JStr (concat (map diff_section ds)))"
proof (induction vs ds arbitrary: parts rule: list_all2_induct)
  case Nil
  then show ?case by simp
next
  case (Cons v vs d ds)
  from Cons.hyps(1) obtain kvs where v: "v = JObj kvs"
    by (cases v) auto
  with Cons.hyps(1) show ?case
    by (simp add: Cons.IH diff_section_def)
qed

lemma as_strs_typed: "as_strs i (map JStr ss) = Inr ss"
  by (induction ss arbitrary: i) auto

lemma py_join_typed: "py_join sep (map JStr ss) = Inr (str_join sep ss)"
  by (simp add: py_join_def as_strs_typed)

lemma build_prompt_typed:
  assumes "list_all2 diff_repr vs ds"
  shows "build_prompt e (context_json cf) (JArr vs) (JStr fp) (JStr oc) (JStr cc) =
           Inr (spec_prompt cf ds fp oc cc)"
proof -
  let ?tail = "[file_sep @ ''original/'' @ fp, oc, file_sep @ ''current/'' @ fp, cc,
                file_sep @ ''updated/'' @ fp]"
  have "add_recent_diffs e (add_context_files [] (map (\<lambda>(p, c). (p, JStr c)) cf)) vs =
          Inr (map JStr (concat (map context_section cf) @ concat (map diff_section ds)))"
    using assms by (simp add: add_context_files_typed add_recent_diffs_typed)
  moreover have "py_join newline
      (map JStr (concat (map context_section cf) @ concat (map diff_section ds)) @ map JStr ?tail)
       = Inr (spec_prompt cf ds fp oc cc)"
    unfolding map_append [symmetric] py_join_typed by (simp add: spec_prompt_def)
  ultimately show ?thesis
    by (simp add: build_prompt_def context_json_def)
qed

lemma predict_prompt_represents:
  assumes "represents d r"
  shows "predict_prompt e d =
           Inr (spec_prompt (context_files r) (recent_diffs r) (file_path r)
                  (case original_content r of None \<Rightarrow> current_content r | Some oc \<Rightarrow> oc)
                  (current_content r))"
proof -
  from assms obtain kvs where d: "d = JObj kvs"
    by (cases d) auto
  note r = assms [unfolded d, simplified]
  obtain vs where rd: "(case map_of kvs ''recent_diffs'' of None \<Rightarrow> JArr [] | Some x \<Rightarrow> x) = JArr vs"
    and vs: "list_all2 diff_repr vs (recent_diffs r)"
    using r by (cases "map_of kvs ''recent_diffs''"; cases "the (map_of kvs ''recent_diffs'')") auto
  have cf: "(case map_of kvs ''context_files'' of None \<Rightarrow> JObj [] | Some x \<Rightarrow> x) = context_json (context_files r)"
    using r by (auto simp: context_json_def split: option.splits)
  show ?thesis
    using r cf rd build_prompt_typed [OF vs]
    by (cases "original_content r") (simp_all add: predict_prompt_def d)
qed

lemmas sample_defs =
  sample_diff_def sample_diff_value_def sample_request_def sample_value_def
  sample_request2_def sample_value2_def sample_prompt_def

text \<open>
  Claim C2. For a request whose fields have the stated types, the prompt is, in this
  order: for each entry of \<^verbatim>\<open>context_files\<close> the delimiter token with the path and then
  the content; for each entry of \<^verbatim>\<open>recent_diffs\<close>, in the given order, the delimiter token
  with the path and \<^verbatim>\<open>.diff\<close>, the marker \<^verbatim>\<open>original:\<close>, the original text, the marker
  \<^verbatim>\<open>updated:\<close>, the updated text; the section \<^verbatim>\<open>original/<file_path>\<close> with the original
  content; the section \<^verbatim>\<open>current/<file_path>\<close> with the current content; the header
  \<^verbatim>\<open>updated/<file_path>\<close> with nothing after it; all parts joined by newlines.
\<close>

theorem build_prompt_fixed_order:
  assumes "list_all2 diff_repr vs ds"
  shows "build_prompt e (context_json cf) (JArr vs) (JStr fp) (JStr oc) (JStr cc) =
           Inr (str_join newline
                  (concat (map (\<lambda>(path, content). [file_sep @ path, content]) cf) @
                   concat (map (\<lambda>d. [file_sep @ diff_file_path d @ ''.diff'',
                                      ''original:'', original d, ''updated:'', updated d]) ds) @
                   [file_sep @ ''original/'' @ fp, oc,
                    file_sep @ ''current/'' @ fp, cc,
                    file_sep @ ''updated/'' @ fp]))"
proof -
  have "context_section = (\<lambda>(path, content). [file_sep @ path, content])"
    by (auto simp: context_section_def fun_eq_iff)
  moreover have "diff_section = (\<lambda>d. [file_sep @ diff_file_path d @ ''.diff'',
                                      ''original:'', original d, ''updated:'', updated d])"
    by (auto simp: diff_section_def fun_eq_iff)
  ultimately show ?thesis
    using build_prompt_typed [OF assms, of e cf fp oc cc]
    by (simp add: spec_prompt_def)
qed

theorem build_prompt_fixed_order_witness:
  "list_all2 diff_repr [sample_diff_value] [sample_diff] \<and>
   build_prompt env0 (context_json [(''b.py'', ''y = 2'')]) (JArr [sample_diff_value])
     (JStr ''a.py'') (JStr ''x = 1'') (JStr ''x = 1'') = Inr sample_prompt"
proof -
  have h: "list_all2 diff_repr [sample_diff_value] [sample_diff]"
    by (simp add: sample_defs)
  from build_prompt_fixed_order [OF h, of env0 "[(''b.py'', ''y = 2'')]" "''a.py''" "''x = 1''" "''x = 1''"]
  show ?thesis
    using h by (simp add: sample_defs file_sep_def)
qed

text \<open>
  Claim C3. Two requests whose \<^verbatim>\<open>context_files\<close>, \<^verbatim>\<open>recent_diffs\<close>, \<^verbatim>\<open>file_path\<close>,
  \<^verbatim>\<open>original_content\<close> and \<^verbatim>\<open>current_content\<close> are equal get the same prompt, whatever
  the other keys of the two dictionaries, the order of their keys and the environments
  of the two invocations are.
\<close>

theorem prompt_deterministic:
  assumes "represents d1 r1" and "represents d2 r2"
    and "context_files r1 = context_files r2" and "recent_diffs r1 = recent_diffs r2"
    and "file_path r1 = file_path r2" and "original_content r1 = original_content r2"
    and "current_content r1 = current_content r2"
  shows "\<exists>prompt. predict_prompt e1 d1 = Inr prompt \<and> predict_prompt e2 d2 = Inr prompt"
proof -
  let ?prompt = "spec_prompt (context_files r1) (recent_diffs r1) (file_path r1)
                  (case original_content r1 of None \<Rightarrow> current_content r1 | Some oc \<Rightarrow> oc)
                  (current_content r1)"
  have "predict_prompt e1 d1 = Inr ?prompt"
    by (rule predict_prompt_represents [OF assms(1)])
  moreover have "predict_prompt e2 d2 = Inr ?prompt"
    unfolding assms(3-7) by (rule predict_prompt_represents [OF assms(2)])
  ultimately show ?thesis by blast
qed

theorem prompt_deterministic_witness:
  "represents sample_value sample_request \<and> represents sample_value2 sample_request2 \<and>
   sample_value \<noteq> sample_value2 \<and> env0 \<noteq> env_download_fails \<and>
   (\<exists>prompt. predict_prompt env0 sample_value = Inr prompt \<and>
             predict_prompt env_download_fails sample_value2 = Inr prompt)"
proof -
  have r1: "represents sample_value sample_request"
    by (simp add: sample_defs context_json_def)
  have r2: "represents sample_value2 sample_request2"
    by (simp add: sample_defs context_json_def)
  have ne: "sample_value \<noteq> sample_value2"
    by (simp add: sample_defs)
  have "path_exists env0 [] \<noteq> path_exists env_download_fails []"
    by (simp add: env0_def env_download_fails_def)
  then have ne': "env0 \<noteq> env_download_fails"
    by auto
  from prompt_deterministic [OF r1 r2, of env0 env_download_fails] r1 r2 ne ne'
  show ?thesis
    by (simp add: sample_request2_def)
qed

text \<open>
  Claim C4. With empty \<^verbatim>\<open>context_files\<close> and empty \<^verbatim>\<open>recent_diffs\<close> the prompt is made of
  three sections: \<^verbatim>\<open>original/<file_path>\<close> with the original content,
  \<^verbatim>\<open>current/<file_path>\<close> with the current content, and the empty
  \<^verbatim>\<open>updated/<file_path>\<close>. When the three texts of the request are free of the delimiter
  token, the token occurs in the prompt exactly three times.
\<close>

theorem empty_context_three_sections:
  "build_prompt e (context_json []) (JArr []) (JStr fp) (JStr oc) (JStr cc) =
     Inr (file_sep @ ''original/'' @ fp @ newline @ oc @ newline @
          file_sep @ ''current/'' @ fp @ newline @ cc @ newline @
          file_sep @ ''updated/'' @ fp) \<and>
   (occurrences file_sep fp = 0 \<and> occurrences file_sep oc = 0 \<and> occurrences file_sep cc = 0 \<longrightarrow>
      (\<exists>prompt. build_prompt e (context_json []) (JArr []) (JStr fp) (JStr oc) (JStr cc) = Inr prompt \<and>
                occurrences file_sep prompt = 3))"
proof -
  have eq: "build_prompt e (context_json []) (JArr []) (JStr fp) (JStr oc) (JStr cc) =
     Inr (file_sep @ ''original/'' @ fp @ newline @ oc @ newline @
          file_sep @ ''current/'' @ fp @ newline @ cc @ newline @
          file_sep @ ''updated/'' @ fp)"
    using build_prompt_typed [of "[]" "[]" e "[]" fp oc cc]
    by (simp add: spec_prompt_def)
  show ?thesis
    unfolding eq using occurrences_three [of fp oc cc] by simp
qed

theorem empty_context_three_sections_witness:
  "occurrences file_sep ''a.py'' = 0 \<and> occurrences file_sep ''x = 0'' = 0 \<and>
   occurrences file_sep ''x = 1'' = 0 \<and>
   (\<exists>prompt. build_prompt env0 (context_json []) (JArr []) (JStr ''a.py'') (JStr ''x = 0'')
               (JStr ''x = 1'') = Inr prompt \<and> occurrences file_sep prompt = 3)"
proof -
  have h: "occurrences file_sep ''a.py'' = 0 \<and> occurrences file_sep ''x = 0'' = 0 \<and>
           occurrences file_sep ''x = 1'' = 0"
    by (simp add: file_sep_def)
  from empty_context_three_sections [of env0 "''a.py''" "''x = 0''" "''x = 1''"] h
  show ?thesis by blast
qed

text \<open>
  Claim C7. For a request without \<^verbatim>\<open>original_content\<close>, the section
  \<^verbatim>\<open>original/<file_path>\<close> of the prompt holds the current content of the request.
\<close>

theorem original_defaults_to_current:
  assumes "represents d r" and "original_content r = None"
  shows "predict_prompt e d =
           Inr (str_join newline
                  (concat (map context_section (context_files r)) @
                   concat (map diff_section (recent_diffs r)) @
                   [file_sep @ ''original/'' @ file_path r, current_content r,
                    file_sep @ ''current/'' @ file_path r, current_content r,
                    file_sep @ ''updated/'' @ file_path r]))"
  using predict_prompt_represents [OF assms(1), of e] assms(2)
  by (simp add: spec_prompt_def)

theorem original_defaults_to_current_witness:
  "represents sample_value sample_request \<and> original_content sample_request = None \<and>
   predict_prompt env0 sample_value = Inr sample_prompt"
proof -
  have r: "represents sample_value sample_request"
    by (simp add: sample_defs context_json_def)
  have n: "original_content sample_request = None"
    by (simp add: sample_request_def)
  from original_defaults_to_current [OF r n, of env0] r n show ?thesis
    by (simp add: sample_defs context_section_def diff_section_def file_sep_def)
qed

subsection \<open>What an invocation prints\<close>

lemma progress_only_refl: "progress_only w w"
  by (simp add: progress_only_def)

lemma progress_only_print: "progress_only w w' \<Longrightarrow> progress_only w (print v w')"
  by (simp add: progress_only_def print_def)

lemma progress_only_call: "progress_only w w' \<Longrightarrow> progress_only w (call c w')"
  by (simp add: progress_only_def call_def)

lemma progress_only_stderr:
  "progress_only w w' \<Longrightarrow> is_progress v \<Longrightarrow> progress_only w (print_stderr v w')"
  by (auto simp: progress_only_def print_stderr_def)

lemma stdout_simps:
  "stdout (print v w) = stdout w @ [v]"
  "stdout (print_stderr v w) = stdout w"
  "stdout (call c w) = stdout w"
  by (simp_all add: print_def print_stderr_def call_def)

lemma download_world:
  assumes "download e w = (r, w')" "progress_only w0 w"
  shows "stdout w' = stdout w \<and> progress_only w0 w'"
  using assms
  by (auto simp: download_def Let_def stdout_simps
           intro!: progress_only_stderr progress_only_call
           split: option.splits sum.splits)

lemma download_handler_world:
  assumes "download_handler x w = (r, w')" "progress_only w0 w"
  shows "r = SystemExit 1 \<and> (\<exists>l. stdout w' = stdout w @ [l] \<and> is_reply l) \<and> progress_only w0 w'"
  using assms
  by (cases x)
     (auto simp: stdout_simps is_reply_def is_line_def error_tag_def intro!: progress_only_print)

lemma get_model_path_world:
  assumes "get_model_path e w = (r, w')"
  shows "progress_only w w' \<and>
         (case r of
            Return p \<Rightarrow> stdout w' = stdout w
          | Raise x \<Rightarrow> stdout w' = stdout w
          | SystemExit n \<Rightarrow> n = 1 \<and> (\<exists>l. stdout w' = stdout w @ [l] \<and> is_reply l))"
proof -
  let ?exists = "path_exists e (path_div (MODEL_DIR e) MODEL_FILENAME)"
  consider (raises) x where "?exists = Inl x" | (hit) "?exists = Inr True"
    | (miss) "?exists = Inr False"
    by (cases ?exists) auto
  then show ?thesis
  proof cases
    case raises
    with assms show ?thesis
      by (auto simp: get_model_path_def progress_only_refl)
  next
    case hit
    with assms show ?thesis
      by (auto simp: get_model_path_def progress_only_refl)
  next
    case miss
    let ?w1 = "print_stderr (JObj [(''status'', JStr ''downloading''),
                                   (''message'', JStr ''Downloading Sweep 1.5B model...'')]) w"
    have p1: "progress_only w ?w1"
      by (rule progress_only_stderr [OF progress_only_refl]) simp
    obtain d w2 where d: "download e ?w1 = (d, w2)"
      by (cases "download e ?w1")
    from download_world [OF d p1] have w2: "stdout w2 = stdout w" "progress_only w w2"
      by (simp_all add: stdout_simps)
    show ?thesis
    proof (cases d)
      case (Inl x)
      with assms miss d have "download_handler x w2 = (r, w')"
        by (simp add: get_model_path_def)
      from download_handler_world [OF this w2(2)] w2(1) show ?thesis
        by auto
    next
      case (Inr p)
      with assms miss d have "r = Return p" "w' = w2"
        by (simp_all add: get_model_path_def)
      with w2 show ?thesis by simp
    qed
  qed
qed

lemma generate_reply: "is_reply (generate e v p prompt)"
  by (auto simp: generate_def prediction_failed_def is_reply_def is_line_def error_tag_def
           split: option.splits sum.splits prod.splits)

lemma predict_world:
  assumes "predict e v w = (r, w')"
  shows "progress_only w w' \<and>
         (case r of
            Return res \<Rightarrow> stdout w' = stdout w \<and> is_reply res
          | Raise x \<Rightarrow> stdout w' = stdout w
          | SystemExit n \<Rightarrow> n = 1 \<and> (\<exists>l. stdout w' = stdout w @ [l] \<and> is_reply l))"
proof (cases "import_llama_cpp e")
  case (Some x)
  with assms show ?thesis
    by (cases x) (auto simp: predict_def progress_only_refl is_reply_def is_line_def error_tag_def)
next
  case None
  obtain g w1 where g: "get_model_path e w = (g, w1)"
    by (cases "get_model_path e w")
  note gw = get_model_path_world [OF g]
  show ?thesis
  proof (cases g)
    case (Return p)
    with assms None g gw show ?thesis
      by (auto simp: predict_def generate_reply split: sum.splits)
  next
    case (Raise x)
    with assms None g gw show ?thesis
      by (auto simp: predict_def)
  next
    case (SystemExit n)
    with assms None g gw show ?thesis
      by (auto simp: predict_def)
  qed
qed

lemma main_body_parsed:
  "parsed_input e = Some v \<Longrightarrow>
   main_body e w =
     (case py_contains v ''file_path'' of
        Inl f \<Rightarrow> (Raise (raise_fault e f), w)
      | Inr False \<Rightarrow>
          (SystemExit 1,
           print (JObj [(''error'', JStr ''missing_field''),
                        (''message'', JStr ''file_path is required'')]) w)
      | Inr True \<Rightarrow>
          (case py_contains v ''current_content'' of
             Inl f \<Rightarrow> (Raise (raise_fault e f), w)
           | Inr False \<Rightarrow>
               (SystemExit 1,
                print (JObj [(''error'', JStr ''missing_field''),
                             (''message'', JStr ''current_content is required'')]) w)
           | Inr True \<Rightarrow>
               (case predict e v w of
                  (SystemExit n, w1) \<Rightarrow> (SystemExit n, w1)
                | (Raise x, w1) \<Rightarrow> (Raise x, w1)
                | (Return result, w1) \<Rightarrow> (Return (), print result w1))))"
  by (auto simp: parsed_input_def main_body_def split: sum.splits if_splits)

lemma main_body_reaches:
  "reaches_predict e v \<Longrightarrow>
   main_body e w =
     (case predict e v w of
        (SystemExit n, w1) \<Rightarrow> (SystemExit n, w1)
      | (Raise x, w1) \<Rightarrow> (Raise x, w1)
      | (Return result, w1) \<Rightarrow> (Return (), print result w1))"
  by (simp add: reaches_predict_def main_body_parsed)

lemma is_reply_line: "is_reply v \<Longrightarrow> is_line v"
  by (simp add: is_reply_def is_line_def)

lemma main_body_world:
  assumes "main_body e w = (r, w')"
  shows "progress_only w w' \<and>
         (case r of
            Return u \<Rightarrow> (\<exists>l. stdout w' = stdout w @ [l] \<and> is_line l)
          | Raise x \<Rightarrow> stdout w' = stdout w
          | SystemExit n \<Rightarrow> n = 1 \<and> (\<exists>l. stdout w' = stdout w @ [l] \<and> is_line l))"
proof (cases "parsed_input e")
  case None
  with assms show ?thesis
    by (auto simp: main_body_def parsed_input_def progress_only_refl stdout_simps is_line_def
             intro!: progress_only_print split: sum.splits if_splits)
next
  case (Some v)
  obtain p w1 where p: "predict e v w = (p, w1)"
    by (cases "predict e v w")
  note pw = predict_world [OF p]
  from assms show ?thesis
    unfolding main_body_parsed [OF Some]
    using pw p
    by (auto simp: progress_only_refl stdout_simps is_reply_def is_line_def
             intro!: progress_only_print split: sum.splits bool.splits outcome.splits)
qed

lemma main_world:
  assumes "main e w = (r, w')"
  shows "progress_only w w' \<and> (\<exists>l. stdout w' = stdout w @ [l] \<and> is_line l) \<and>
         (r = Return () \<or> r = SystemExit 1)"
proof -
  obtain b w1 where b: "main_body e w = (b, w1)"
    by (cases "main_body e w")
  note bw = main_body_world [OF b]
  show ?thesis
  proof (cases b)
    case (Return u)
    with assms b bw show ?thesis by (auto simp: main_def)
  next
    case (Raise x)
    with assms b bw show ?thesis
      by (cases x) (auto simp: main_def stdout_simps is_line_def intro!: progress_only_print)
  next
    case (SystemExit n)
    with assms b bw show ?thesis by (auto simp: main_def)
  qed
qed

lemma is_line_not_progress: "is_line v \<Longrightarrow> \<not> is_progress v"
  by (cases v rule: is_error_envelope.cases; cases v rule: is_prediction_result.cases)
     (auto simp: is_line_def)

lemma is_line_exclusive: "\<not> (is_error_envelope v \<and> is_prediction_result v)"
  by (cases v rule: is_error_envelope.cases) auto

text \<open>
  From the call of \<^verbatim>\<open>main()\<close> on, exactly one line is printed on standard output. The line
  is an error envelope or a prediction result, not both, and is no progress message; every
  line on standard error is a progress message of the download.
\<close>

theorem one_line_from_main:
  "\<exists>l. stdout (snd (run e)) = [l] \<and>
        (is_error_envelope l \<or> is_prediction_result l) \<and>
        \<not> (is_error_envelope l \<and> is_prediction_result l) \<and>
        \<not> is_progress l \<and>
        (\<forall>s\<in>set (stderr (snd (run e))). is_progress s)"
proof -
  obtain r w where m: "main e start = (r, w)"
    by (cases "main e start")
  from main_world [OF m] obtain l where l: "stdout w = [l]" "is_line l"
    and p: "progress_only start w"
    by (auto simp: start_def)
  from p have "\<forall>s\<in>set (stderr w). is_progress s"
    by (auto simp: progress_only_def start_def list_all_iff)
  with l m is_line_not_progress [OF l(2)] is_line_exclusive [of l] show ?thesis
    by (auto simp: run_def is_line_def)
qed

lemma one_line_once_loaded:
  assumes "home_error e = None"
  shows "\<exists>l. stdout_of (script e) = [l] \<and> is_line l \<and> \<not> is_progress l"
proof -
  from one_line_from_main [of e] obtain l where "stdout (snd (run e)) = [l]"
    "is_error_envelope l \<or> is_prediction_result l" "\<not> is_progress l"
    by blast
  with assms show ?thesis
    by (auto simp: script_def is_line_def split: prod.splits)
qed

text \<open>
  Claim C9. Every invocation prints exactly one JSON object on standard output, a
  prediction result or an error envelope, and the progress messages of the download go to
  standard error. Once the module is loaded the script does so, as the lemma above says.
  It does not when \<^verbatim>\<open>Path.home()\<close> raises at line 19, before \<^verbatim>\<open>main()\<close> and outside its
  handlers: in the invocation \<open>env_no_home\<close> the exception is uncaught, nothing is printed
  on standard output and the exit code is 1.
\<close>

theorem home_failure_prints_nothing:
  "home_error env_no_home = Some (OtherException ''Could not determine home directory.'') \<and>
   script env_no_home = Uncaught (OtherException ''Could not determine home directory.'') \<and>
   stdout_of (script env_no_home) = [] \<and>
   exit_status (script env_no_home) = 1"
  by (simp add: script_def env_no_home_def env0_def)

subsection \<open>The cache\<close>

lemma get_model_path_hit:
  "path_exists e (path_div (MODEL_DIR e) MODEL_FILENAME) = Inr True \<Longrightarrow>
   get_model_path e w = (Return (path_div (MODEL_DIR e) MODEL_FILENAME), w)"
  by (simp add: get_model_path_def)

lemma predict_hit:
  "path_exists e (path_div (MODEL_DIR e) MODEL_FILENAME) = Inr True \<Longrightarrow> snd (predict e v w) = w"
  by (auto simp: predict_def get_model_path_hit split: option.splits exc.splits sum.splits)

lemma world_simps:
  "calls (print v w) = calls w" "stderr (print v w) = stderr w"
  by (simp_all add: print_def)

lemma main_body_hit:
  assumes "path_exists e (path_div (MODEL_DIR e) MODEL_FILENAME) = Inr True"
  shows "calls (snd (main_body e w)) = calls w \<and> stderr (snd (main_body e w)) = stderr w"
proof (cases "parsed_input e")
  case None
  then show ?thesis
    by (auto simp: main_body_def parsed_input_def world_simps split: sum.splits if_splits)
next
  case (Some v)
  obtain p w1 where p: "predict e v w = (p, w1)"
    by (cases "predict e v w")
  with predict_hit [OF assms, of v w] have "w1 = w" by simp
  with p show ?thesis
    unfolding main_body_parsed [OF Some]
    by (auto simp: world_simps split: sum.splits bool.splits outcome.splits)
qed

lemma main_hit:
  assumes "path_exists e (path_div (MODEL_DIR e) MODEL_FILENAME) = Inr True"
  shows "calls (snd (main e w)) = calls w \<and> stderr (snd (main e w)) = stderr w"
proof -
  obtain b w1 where b: "main_body e w = (b, w1)"
    by (cases "main_body e w")
  with main_body_hit [OF assms, of w] have "calls w1 = calls w" "stderr w1 = stderr w"
    by simp_all
  with b show ?thesis
    by (auto simp: main_def world_simps split: outcome.splits exc.splits)
qed

text \<open>
  Claim C8. When the model file is in the cache directory, \<^verbatim>\<open>get_model_path\<close> returns its
  path at once and leaves the world as it is: no directory is created, no download is
  started, nothing is printed. An invocation that finds the file makes no such call at all.
\<close>

theorem cache_hit_no_download:
  assumes "path_exists e (path_div (MODEL_DIR e) MODEL_FILENAME) = Inr True"
  shows "get_model_path e w = (Return (path_div (MODEL_DIR e) MODEL_FILENAME), w) \<and>
         calls (snd (run e)) = [] \<and> stderr (snd (run e)) = []"
proof -
  have "snd (run e) = snd (main e start)"
    by (simp add: run_def split: prod.splits)
  with main_hit [OF assms, of start] get_model_path_hit [OF assms] show ?thesis
    by (simp add: start_def)
qed

subsection \<open>Sample invocations, evaluated\<close>

lemmas env_defs =
  env0_def env_download_fails_def env_blank_def env_bad_json_def env_no_file_path_def
  env_no_current_content_def env_null_fields_def null_fields_def env_no_llama_def
  env_load_fails_def env_call_fails_def env_no_hub_def env_download_ok_def
  request_text_def request_value_def

lemmas run_defs =
  run_def main_def main_body_def predict_def predict_prompt_def build_prompt_def
  get_model_path_def download_def generate_def prediction_failed_def py_join_def
  start_def exit_code_def print_def print_stderr_def call_def raise_fault_def
  strip_def py_isspace_def MODEL_DIR_def MODEL_REPO_def MODEL_FILENAME_def path_div_def
  file_sep_def newline_def parsed_input_def reaches_predict_def

theorem cache_hit_no_download_witness:
  "path_exists env0 (path_div (MODEL_DIR env0) MODEL_FILENAME) = Inr True \<and>
   get_model_path env0 start =
     (Return ''/home/u/.stackmemory/models/sweep/sweep-next-edit-1.5b.q8_0.v2.gguf'', start) \<and>
   calls (snd (run env0)) = [] \<and> stderr (snd (run env0)) = []"
proof -
  have h: "path_exists env0 (path_div (MODEL_DIR env0) MODEL_FILENAME) = Inr True"
    by (simp add: env0_def)
  from cache_hit_no_download [OF h, of start] h show ?thesis
    by (simp add: env0_def MODEL_DIR_def MODEL_FILENAME_def path_div_def)
qed

theorem one_line_from_main_sample:
  "stderr (snd (run env_download_ok)) =
     [JObj [(''status'', JStr ''downloading''),
            (''message'', JStr ''Downloading Sweep 1.5B model...'')],
      JObj [(''status'', JStr ''downloaded''),
            (''path'', JStr ''/home/u/.stackmemory/models/sweep/sweep-next-edit-1.5b.q8_0.v2.gguf'')]] \<and>
   (\<exists>l. stdout (snd (run env_download_ok)) = [l] \<and>
        (is_error_envelope l \<or> is_prediction_result l) \<and>
        \<not> (is_error_envelope l \<and> is_prediction_result l) \<and>
        \<not> is_progress l \<and>
        (\<forall>s\<in>set (stderr (snd (run env_download_ok))). is_progress s))"
proof -
  have "stderr (snd (run env_download_ok)) =
     [JObj [(''status'', JStr ''downloading''),
            (''message'', JStr ''Downloading Sweep 1.5B model...'')],
      JObj [(''status'', JStr ''downloaded''),
            (''path'', JStr ''/home/u/.stackmemory/models/sweep/sweep-next-edit-1.5b.q8_0.v2.gguf'')]]"
    by (simp add: env_defs run_defs)
  with one_line_from_main [of env_download_ok] show ?thesis
    by blast
qed

subsection \<open>Validation\<close>

text \<open>
  Claim C6, as the script has it. In an invocation that reaches \<^verbatim>\<open>main()\<close>: when standard
  input is empty or holds only whitespace, the script prints the \<^verbatim>\<open>no_input\<close> envelope and
  exits with 1, whatever the JSON parser would do with that text, since the parser is not
  consulted. When the input is not blank and the parser raises a \<^verbatim>\<open>JSONDecodeError\<close>, the
  script prints the \<^verbatim>\<open>invalid_json\<close> envelope with the message of the parser and exits
  with 1. When the parser raises any other exception, the handler of \<^verbatim>\<open>Exception\<close> prints
  the \<^verbatim>\<open>unexpected\<close> envelope with its message, and the exit code is 1.
\<close>

theorem blank_input_before_parsing:
  "(home_error e = None \<and> stdin_read e = Inr t \<and> (\<forall>c\<in>set t. py_isspace c) \<longrightarrow>
      script (e\<lparr>json_loads := p\<rparr>) =
        Ended 1 (print (JObj [(''error'', JStr ''no_input''),
                              (''message'', JStr ''No input provided'')]) start)) \<and>
   (home_error e = None \<and> stdin_read e = Inr t \<and> \<not> (\<forall>c\<in>set t. py_isspace c) \<and>
    json_loads e t = Inl x \<longrightarrow>
      script e =
        Ended 1 (print (case x of
                          JSONDecodeError m \<Rightarrow>
                            JObj [(''error'', JStr ''invalid_json''), (''message'', JStr m)]
                        | _ \<Rightarrow>
                            JObj [(''error'', JStr ''unexpected''),
                                  (''message'', JStr (str_exc x))]) start))"
  by (cases x)
     (simp_all add: script_def run_def main_def main_body_def strip_Nil_iff [symmetric] exit_code_def)

theorem blank_input_before_parsing_witness:
  "home_error env_blank = None \<and>
   stdin_read env_blank = Inr ('' '' @ newline) \<and> list_all py_isspace ('' '' @ newline) \<and>
   script (env_blank\<lparr>json_loads := (\<lambda>s. Inl (JSONDecodeError ''Expecting value''))\<rparr>) =
     Ended 1 \<lparr>stdout = [JObj [(''error'', JStr ''no_input''),
                                (''message'', JStr ''No input provided'')]],
               stderr = [], calls = []\<rparr> \<and>
   home_error env_bad_json = None \<and>
   stdin_read env_bad_json = Inr ''{'' \<and> \<not> list_all py_isspace ''{'' \<and>
   json_loads env_bad_json ''{'' = Inl (JSONDecodeError ''Expecting value'') \<and>
   script env_bad_json =
     Ended 1 \<lparr>stdout = [JObj [(''error'', JStr ''invalid_json''),
                                (''message'', JStr ''Expecting value'')]],
               stderr = [], calls = []\<rparr>"
proof -
  have a: "home_error env_blank = None \<and> stdin_read env_blank = Inr ('' '' @ newline) \<and>
           (\<forall>c\<in>set ('' '' @ newline). py_isspace c)"
    by (simp add: env_defs newline_def py_isspace_def)
  have b: "home_error env_bad_json = None \<and> stdin_read env_bad_json = Inr ''{'' \<and>
           \<not> (\<forall>c\<in>set ''{''. py_isspace c) \<and>
           json_loads env_bad_json ''{'' = Inl (JSONDecodeError ''Expecting value'')"
    by (simp add: env_defs py_isspace_def)
  from blank_input_before_parsing
         [of env_blank "'' '' @ newline" "\<lambda>s. Inl (JSONDecodeError ''Expecting value'')"] a
       blank_input_before_parsing [of env_bad_json "''{''" _ "JSONDecodeError ''Expecting value''"] b
  show ?thesis
    by (simp add: print_def start_def list_all_iff)
qed

text \<open>
  Claim C6 as it is stated asks for the \<^verbatim>\<open>invalid_json\<close> envelope on every input that is
  not blank and fails to parse. On a hundred thousand opening brackets \<^verbatim>\<open>json.loads\<close>
  raises a \<^verbatim>\<open>RecursionError\<close>, which is no \<^verbatim>\<open>JSONDecodeError\<close>: the \<^verbatim>\<open>unexpected\<close> envelope
  is printed.
\<close>

theorem parser_recursion_error_is_unexpected:
  "home_error env_deep_nesting = None \<and>
   stdin_read env_deep_nesting = Inr deep_nesting \<and>
   \<not> list_all py_isspace deep_nesting \<and>
   json_loads env_deep_nesting deep_nesting =
     Inl (OtherException
            ''maximum recursion depth exceeded while decoding a JSON array from a unicode string'') \<and>
   script env_deep_nesting =
     Ended 1 \<lparr>stdout =
                 [JObj [(''error'', JStr ''unexpected''),
                        (''message'',
                         JStr ''maximum recursion depth exceeded while decoding a JSON array from a unicode string'')]],
               stderr = [], calls = []\<rparr> \<and>
   error_tag (hd (stdout_of (script env_deep_nesting))) \<noteq> Some ''invalid_json''"
proof -
  have ns: "\<not> py_isspace (CHR ''['')"
    by (simp add: py_isspace_def)
  have "set deep_nesting = {CHR ''[''}"
    by (simp add: deep_nesting_def)
  with ns have nb: "\<not> (\<forall>c\<in>set deep_nesting. py_isspace c)"
    by simp
  then have st: "strip deep_nesting \<noteq> []"
    by (simp add: strip_Nil_iff)
  have sc: "script env_deep_nesting =
     Ended 1 \<lparr>stdout =
                 [JObj [(''error'', JStr ''unexpected''),
                        (''message'',
                         JStr ''maximum recursion depth exceeded while decoding a JSON array from a unicode string'')]],
               stderr = [], calls = []\<rparr>"
    using st
    by (simp add: script_def run_def main_def main_body_def exit_code_def env_deep_nesting_def
          env0_def print_def start_def)
  show ?thesis
    using nb unfolding sc
    by (simp add: env_deep_nesting_def env0_def list_all_iff error_tag_def)
qed

text \<open>
  Claim C5. On a parsed JSON object, \<^verbatim>\<open>file_path\<close> is checked first: without that key the
  script prints the \<^verbatim>\<open>missing_field\<close> envelope that names \<^verbatim>\<open>file_path\<close> and exits with 1;
  with it but without \<^verbatim>\<open>current_content\<close>, it prints the \<^verbatim>\<open>missing_field\<close> envelope that
  names \<^verbatim>\<open>current_content\<close> and exits with 1.
\<close>

theorem missing_field_order:
  assumes "parsed_input e = Some (JObj kvs)"
  shows "(''file_path'' \<notin> fst ` set kvs \<longrightarrow>
            run e = (1, print (JObj [(''error'', JStr ''missing_field''),
                                     (''message'', JStr ''file_path is required'')]) start)) \<and>
         (''file_path'' \<in> fst ` set kvs \<and> ''current_content'' \<notin> fst ` set kvs \<longrightarrow>
            run e = (1, print (JObj [(''error'', JStr ''missing_field''),
                                     (''message'', JStr ''current_content is required'')]) start))"
  by (simp add: run_def main_def main_body_parsed [OF assms] exit_code_def)

theorem missing_field_order_witness:
  "parsed_input env_no_file_path = Some (JObj [(''current_content'', JStr ''x = 1'')]) \<and>
   ''file_path'' \<notin> fst ` set [(''current_content'', JStr ''x = 1'')] \<and>
   run env_no_file_path =
     (1, \<lparr>stdout = [JObj [(''error'', JStr ''missing_field''),
                           (''message'', JStr ''file_path is required'')]],
          stderr = [], calls = []\<rparr>) \<and>
   parsed_input env_no_current_content = Some (JObj [(''file_path'', JStr ''a.py'')]) \<and>
   ''file_path'' \<in> fst ` set [(''file_path'', JStr ''a.py'')] \<and>
   ''current_content'' \<notin> fst ` set [(''file_path'', JStr ''a.py'')] \<and>
   run env_no_current_content =
     (1, \<lparr>stdout = [JObj [(''error'', JStr ''missing_field''),
                           (''message'', JStr ''current_content is required'')]],
          stderr = [], calls = []\<rparr>)"
proof -
  have a: "parsed_input env_no_file_path = Some (JObj [(''current_content'', JStr ''x = 1'')])"
    by (simp add: env_defs parsed_input_def strip_def py_isspace_def)
  have b: "parsed_input env_no_current_content = Some (JObj [(''file_path'', JStr ''a.py'')])"
    by (simp add: env_defs parsed_input_def strip_def py_isspace_def)
  from missing_field_order [OF a] missing_field_order [OF b] a b show ?thesis
    by (simp add: print_def start_def)
qed

text \<open>
  Claim C10. Validation looks at the keys only. On a parsed JSON object that has the keys
  \<^verbatim>\<open>file_path\<close> and \<^verbatim>\<open>current_content\<close>, whatever their values (\<^verbatim>\<open>null\<close> included), the
  outcome of the \<^verbatim>\<open>try\<close> block of \<^verbatim>\<open>main\<close> is the outcome of \<^verbatim>\<open>predict\<close>, with its result
  printed, and no \<^verbatim>\<open>missing_field\<close> envelope is printed.
\<close>

theorem presence_only_validation:
  assumes "parsed_input e = Some (JObj kvs)"
    and "''file_path'' \<in> fst ` set kvs" and "''current_content'' \<in> fst ` set kvs"
  shows "main_body e start =
           (case predict e (JObj kvs) start of
              (SystemExit n, w1) \<Rightarrow> (SystemExit n, w1)
            | (Raise x, w1) \<Rightarrow> (Raise x, w1)
            | (Return result, w1) \<Rightarrow> (Return (), print result w1)) \<and>
         (\<forall>l\<in>set (stdout (snd (run e))). error_tag l \<noteq> Some ''missing_field'')"
proof -
  have reach: "reaches_predict e (JObj kvs)"
    using assms by (simp add: reaches_predict_def)
  obtain p w1 where p: "predict e (JObj kvs) start = (p, w1)"
    by (cases "predict e (JObj kvs) start")
  note pw = predict_world [OF p]
  have "\<forall>l\<in>set (stdout (snd (run e))). error_tag l \<noteq> Some ''missing_field''"
  proof (cases p)
    case (Return res)
    with p pw show ?thesis
      by (simp add: run_def main_def main_body_reaches [OF reach] start_def stdout_simps is_reply_def is_line_def)
  next
    case (Raise x)
    with p pw show ?thesis
      by (cases x)
         (simp_all add: run_def main_def main_body_reaches [OF reach] start_def stdout_simps
            error_tag_def)
  next
    case (SystemExit n)
    with p pw show ?thesis
      by (auto simp: run_def main_def main_body_reaches [OF reach] start_def is_reply_def is_line_def)
  qed
  with main_body_reaches [OF reach] show ?thesis by simp
qed

theorem presence_only_validation_witness:
  "parsed_input env_null_fields = Some (JObj null_fields) \<and>
   ''file_path'' \<in> fst ` set null_fields \<and> ''current_content'' \<in> fst ` set null_fields \<and>
   main_body env_null_fields start =
     (case predict env_null_fields (JObj null_fields) start of
        (SystemExit n, w1) \<Rightarrow> (SystemExit n, w1)
      | (Raise x, w1) \<Rightarrow> (Raise x, w1)
      | (Return result, w1) \<Rightarrow> (Return (), print result w1)) \<and>
   list_all (\<lambda>l. error_tag l \<noteq> Some ''missing_field'') (stdout (snd (run env_null_fields))) \<and>
   run env_null_fields =
     (1, \<lparr>stdout = [JObj [(''error'', JStr ''unexpected''), (''message'', JStr ''TypeError'')]],
          stderr = [], calls = []\<rparr>)"
proof -
  have p: "parsed_input env_null_fields = Some (JObj null_fields)"
    by (simp add: env_defs parsed_input_def strip_def py_isspace_def)
  have k: "''file_path'' \<in> fst ` set null_fields" "''current_content'' \<in> fst ` set null_fields"
    by (simp_all add: null_fields_def)
  have r: "run env_null_fields =
     (1, \<lparr>stdout = [JObj [(''error'', JStr ''unexpected''), (''message'', JStr ''TypeError'')]],
          stderr = [], calls = []\<rparr>)"
    by (simp add: env_defs run_defs)
  from presence_only_validation [OF p k] p k r show ?thesis
    unfolding list_all_iff by blast
qed

subsection \<open>Failures of the prediction stage\<close>

lemma run_reaches:
  assumes "reaches_predict e v" "predict e v start = (r, w)"
  shows "run e =
     (case r of
        Return result \<Rightarrow> (0, print result w)
      | SystemExit n \<Rightarrow> (n, w)
      | Raise (JSONDecodeError m) \<Rightarrow>
          (1, print (JObj [(''error'', JStr ''invalid_json''), (''message'', JStr m)]) w)
      | Raise x \<Rightarrow>
          (1, print (JObj [(''error'', JStr ''unexpected''), (''message'', JStr (str_exc x))]) w))"
  using assms(2)
  by (simp add: run_def main_def main_body_reaches [OF assms(1)] exit_code_def
           split: outcome.splits exc.splits)

text \<open>
  Claim C1, as the script has it. Once validation has passed, a failure of the prediction
  stage is printed as one error envelope on standard output. The exit code is 0 when
  \<^verbatim>\<open>llama_cpp\<close> is missing and when loading the model or generating fails
  (\<^verbatim>\<open>prediction_failed\<close>). It is 1 when the model has to be fetched and
  \<^verbatim>\<open>huggingface_hub\<close> is missing or the download fails: \<^verbatim>\<open>get_model_path\<close> prints the
  envelope itself and calls \<^verbatim>\<open>sys.exit(1)\<close>.
\<close>

theorem prediction_stage_errors:
  assumes "reaches_predict e v"
  shows "(import_llama_cpp e = Some (ImportError m) \<longrightarrow>
            run e = (0, print (JObj [(''error'', JStr ''llama_cpp not installed''),
                                     (''message'', JStr ''Run: pip install llama-cpp-python'')]) start)) \<and>
         (import_llama_cpp e = None \<and> get_model_path e start = (Return p, w) \<and>
          predict_prompt e v = Inr prompt \<and> llama_load e p = Some x \<longrightarrow>
            run e = (0, print (JObj [(''error'', JStr ''prediction_failed''),
                                     (''message'', JStr (str_exc x))]) w)) \<and>
         (import_llama_cpp e = None \<and> get_model_path e start = (Return p, w) \<and>
          predict_prompt e v = Inr prompt \<and> llama_load e p = None \<and>
          py_get v ''max_tokens'' (JInt 512) = Inr n \<and>
          py_get v ''temperature'' (JFloat ''0.0'') = Inr t \<and>
          llama_call e p prompt n t = Inl x \<longrightarrow>
            run e = (0, print (JObj [(''error'', JStr ''prediction_failed''),
                                     (''message'', JStr (str_exc x))]) w)) \<and>
         (import_llama_cpp e = None \<and> path_exists e (path_div (MODEL_DIR e) MODEL_FILENAME) = Inr False \<and>
          download e (print_stderr (JObj [(''status'', JStr ''downloading''),
                                        (''message'', JStr ''Downloading Sweep 1.5B model...'')]) start) = (Inl x, w) \<longrightarrow>
            run e =
              (1, print (case x of
                           ImportError m' \<Rightarrow>
                             JObj [(''error'', JStr ''huggingface_hub not installed''),
                                   (''message'', JStr ''Run: pip install huggingface_hub llama-cpp-python'')]
                         | _ \<Rightarrow>
                             JObj [(''error'', JStr ''download_failed''),
                                   (''message'', JStr (str_exc x))]) w))"
proof (intro conjI impI)
  assume "import_llama_cpp e = Some (ImportError m)"
  then have "predict e v start =
      (Return (JObj [(''error'', JStr ''llama_cpp not installed''),
                     (''message'', JStr ''Run: pip install llama-cpp-python'')]), start)"
    by (simp add: predict_def)
  from run_reaches [OF assms this]
  show "run e = (0, print (JObj [(''error'', JStr ''llama_cpp not installed''),
                                 (''message'', JStr ''Run: pip install llama-cpp-python'')]) start)"
    by simp
next
  assume a: "import_llama_cpp e = None \<and> get_model_path e start = (Return p, w) \<and>
          predict_prompt e v = Inr prompt \<and> llama_load e p = Some x"
  then have "predict e v start = (Return (prediction_failed (str_exc x)), w)"
    by (simp add: predict_def generate_def)
  from run_reaches [OF assms this]
  show "run e = (0, print (JObj [(''error'', JStr ''prediction_failed''),
                                 (''message'', JStr (str_exc x))]) w)"
    by (simp add: prediction_failed_def)
next
  assume a: "import_llama_cpp e = None \<and> get_model_path e start = (Return p, w) \<and>
          predict_prompt e v = Inr prompt \<and> llama_load e p = None \<and>
          py_get v ''max_tokens'' (JInt 512) = Inr n \<and>
          py_get v ''temperature'' (JFloat ''0.0'') = Inr t \<and>
          llama_call e p prompt n t = Inl x"
  then have "predict e v start = (Return (prediction_failed (str_exc x)), w)"
    by (simp add: predict_def generate_def)
  from run_reaches [OF assms this]
  show "run e = (0, print (JObj [(''error'', JStr ''prediction_failed''),
                                 (''message'', JStr (str_exc x))]) w)"
    by (simp add: prediction_failed_def)
next
  assume a: "import_llama_cpp e = None \<and> path_exists e (path_div (MODEL_DIR e) MODEL_FILENAME) = Inr False \<and>
          download e (print_stderr (JObj [(''status'', JStr ''downloading''),
                                        (''message'', JStr ''Downloading Sweep 1.5B model...'')]) start) = (Inl x, w)"
  let ?l = "case x of
              ImportError m' \<Rightarrow>
                JObj [(''error'', JStr ''huggingface_hub not installed''),
                      (''message'', JStr ''Run: pip install huggingface_hub llama-cpp-python'')]
            | _ \<Rightarrow> JObj [(''error'', JStr ''download_failed''), (''message'', JStr (str_exc x))]"
  have "download_handler x w = (SystemExit 1, print ?l w)"
    by (cases x) simp_all
  with a have "predict e v start = (SystemExit 1, print ?l w)"
    by (simp add: predict_def get_model_path_def)
  from run_reaches [OF assms this]
  show "run e = (1, print ?l w)"
    by simp
qed

theorem prediction_stage_errors_witness:
  "reaches_predict env_no_llama request_value \<and>
   import_llama_cpp env_no_llama = Some (ImportError ''No module named llama_cpp'') \<and>
   run env_no_llama =
     (0, \<lparr>stdout = [JObj [(''error'', JStr ''llama_cpp not installed''),
                           (''message'', JStr ''Run: pip install llama-cpp-python'')]],
          stderr = [], calls = []\<rparr>) \<and>
   reaches_predict env_load_fails request_value \<and>
   run env_load_fails =
     (0, \<lparr>stdout = [JObj [(''error'', JStr ''prediction_failed''),
                           (''message'', JStr ''failed to load model'')]],
          stderr = [], calls = []\<rparr>) \<and>
   reaches_predict env_call_fails request_value \<and>
   run env_call_fails =
     (0, \<lparr>stdout = [JObj [(''error'', JStr ''prediction_failed''),
                           (''message'', JStr ''out of memory'')]],
          stderr = [], calls = []\<rparr>) \<and>
   reaches_predict env_no_hub request_value \<and>
   run env_no_hub =
     (1, \<lparr>stdout = [JObj [(''error'', JStr ''huggingface_hub not installed''),
                           (''message'', JStr ''Run: pip install huggingface_hub llama-cpp-python'')]],
          stderr = [JObj [(''status'', JStr ''downloading''),
                          (''message'', JStr ''Downloading Sweep 1.5B model...'')]],
          calls = []\<rparr>)"
proof -
  let ?path = "''/home/u/.stackmemory/models/sweep/sweep-next-edit-1.5b.q8_0.v2.gguf''"
  let ?prompt = "str_join newline [''<|file_sep|>original/a.py'', ''x = 1'',
                                   ''<|file_sep|>current/a.py'', ''x = 1'',
                                   ''<|file_sep|>updated/a.py'']"
  let ?progress = "JObj [(''status'', JStr ''downloading''),
                         (''message'', JStr ''Downloading Sweep 1.5B model...'')]"
  have r1: "reaches_predict env_no_llama request_value"
    and r2: "reaches_predict env_load_fails request_value"
    and r3: "reaches_predict env_call_fails request_value"
    and r4: "reaches_predict env_no_hub request_value"
    by (simp_all add: env_defs reaches_predict_def parsed_input_def strip_def py_isspace_def)
  have h1: "import_llama_cpp env_no_llama = Some (ImportError ''No module named llama_cpp'')"
    by (simp add: env_defs)
  have h2: "import_llama_cpp env_load_fails = None \<and>
            get_model_path env_load_fails start = (Return ?path, start) \<and>
            predict_prompt env_load_fails request_value = Inr ?prompt \<and>
            llama_load env_load_fails ?path = Some (OtherException ''failed to load model'')"
    by (simp add: env_defs get_model_path_def MODEL_DIR_def MODEL_FILENAME_def path_div_def
          predict_prompt_def build_prompt_def py_join_def file_sep_def)
  have h3: "import_llama_cpp env_call_fails = None \<and>
            get_model_path env_call_fails start = (Return ?path, start) \<and>
            predict_prompt env_call_fails request_value = Inr ?prompt \<and>
            llama_load env_call_fails ?path = None \<and>
            py_get request_value ''max_tokens'' (JInt 512) = Inr (JInt 512) \<and>
            py_get request_value ''temperature'' (JFloat ''0.0'') = Inr (JFloat ''0.0'') \<and>
            llama_call env_call_fails ?path ?prompt (JInt 512) (JFloat ''0.0'') =
              Inl (OtherException ''out of memory'')"
    by (simp add: env_defs get_model_path_def MODEL_DIR_def MODEL_FILENAME_def path_div_def
          predict_prompt_def build_prompt_def py_join_def file_sep_def)
  have h4: "import_llama_cpp env_no_hub = None \<and>
            path_exists env_no_hub (path_div (MODEL_DIR env_no_hub) MODEL_FILENAME) = Inr False \<and>
            download env_no_hub (print_stderr ?progress start) =
              (Inl (ImportError ''No module named huggingface_hub''), print_stderr ?progress start)"
    by (simp add: env_defs download_def)
  note t1 = prediction_stage_errors [OF r1, THEN conjunct1, rule_format, OF h1]
  note t2 = prediction_stage_errors [OF r2, THEN conjunct2, THEN conjunct1, rule_format, OF h2]
  note t3 = prediction_stage_errors
              [OF r3, THEN conjunct2, THEN conjunct2, THEN conjunct1, rule_format, OF h3]
  note t4 = prediction_stage_errors
              [OF r4, THEN conjunct2, THEN conjunct2, THEN conjunct2, rule_format, OF h4]
  from t1 t2 t3 t4 r1 r2 r3 r4 h1 show ?thesis
    by (simp add: print_def print_stderr_def start_def)
qed

text \<open>
  Claim C1 as it is stated asks for exit code 0 after a failed download. In the invocation
  \<open>env_download_fails\<close> validation passes, the cache is empty and the registry refuses
  the connection: the \<^verbatim>\<open>download_failed\<close> envelope is printed and the exit code is 1.
\<close>

theorem download_failure_exits_1:
  "reaches_predict env_download_fails request_value \<and>
   import_llama_cpp env_download_fails = None \<and>
   hf_hub_download env_download_fails MODEL_REPO MODEL_FILENAME (MODEL_DIR env_download_fails) =
     Inl (OtherException ''connection refused'') \<and>
   stdout (snd (run env_download_fails)) =
     [JObj [(''error'', JStr ''download_failed''), (''message'', JStr ''connection refused'')]] \<and>
   fst (run env_download_fails) = 1 \<and>
   fst (run env_download_fails) \<noteq> 0"
  by (simp add: env_defs run_defs)


end
